theory Spec2Isabelle
  imports Main "HOL-Library.Sublist"
begin

section \<open>Gallery controller of the image analyser (src/pages/Index.tsx)\<close>

text \<open>
  The component \<open>Index\<close> keeps three pieces of React state (\<open>images\<close>, \<open>isUploading\<close>,
  \<open>selectedFile\<close>) and one ref (\<open>fileInputRef\<close>), and has four handlers: \<open>fetchImages\<close>,
  \<open>handleFileSelect\<close>, \<open>handleUpload\<close> and \<open>handleDelete\<close>. Each handler is embedded as a
  function from the state before the call and the outcome of the one network request it
  awaits (if any) to the state after the call and the list of effects it performed, in
  program order. The handlers are taken to run one after the other.
\<close>

subsection \<open>Data\<close>

datatype status = Analyzing | Completed

text \<open>
  The interface \<open>UploadedImage\<close>. The fields \<open>id\<close> and \<open>size\<close> carry a suffix because
  the plain names are constants of HOL. Optional fields are options.
\<close>

record UploadedImage =
  id_img :: string
  fileName :: string
  originalName :: "string option"
  mimeType :: "string option"
  size_img :: "nat option"
  uploadedAt :: string
  description :: string
  status :: "status option"

text \<open>The part of a DOM \<open>File\<close> that the handlers read.\<close>

record File =
  file_name :: string
  file_type :: string
  file_size :: nat

text \<open>
  A value that a \<open>try\<close> block can catch: an instance of \<open>Error\<close> with its message, or
  any other thrown value.
\<close>

datatype thrown = Error string | NonError

text \<open>
  A response of the backend. \<open>ResponseOk\<close> is a response whose \<open>ok\<close> flag is true,
  \<open>ResponseNotOk\<close> one whose flag is false; the argument is what \<open>response.json()\<close>
  gives for it: a thrown value when the body is not JSON, and the decoded body otherwise.
  The decoded body has the shape the endpoint is documented to send.
\<close>

datatype ('a, 'b) response = ResponseOk "thrown + 'a" | ResponseNotOk "thrown + 'b"

fun ok :: "('a, 'b) response \<Rightarrow> bool" where
  "ok (ResponseOk _) = True"
| "ok (ResponseNotOk _) = False"

text \<open>What \<open>await fetch(...)\<close> gives: the promise rejects, or resolves to a response.\<close>

datatype 'r fetched = Rejects thrown | Resolves 'r

text \<open>
  The decoded body of a failed upload is of type \<open>any\<close> in the source, and the handler
  reads its property \<open>message\<close>. A value that this property can hold is kept as what
  the handler can observe of it. A number (a double in the program) is given by whether
  it is zero and by the text that its conversion to a string yields. An array or an
  object is given by the result of its conversion to a string: \<open>Inr\<close> the text, or
  \<open>Inl\<close> the message of the \<open>TypeError\<close> that the conversion throws.
\<close>

datatype json_value =
    JNull
  | JBool bool
  | JNumber bool string
  | JString string
  | JCompound "string + string"

text \<open>
  The decoded body itself: \<open>NullBody\<close> is the JSON value \<open>null\<close>, with the message of
  the \<open>TypeError\<close> that reading a property of \<open>null\<close> throws; \<open>Body\<close> is any other
  JSON value, given by its property \<open>message\<close>, which is \<open>None\<close> (undefined) when the
  value has no such property.
\<close>

datatype errorData = NullBody string | Body "json_value option"

type_synonym list_outcome = "(UploadedImage list, unit) response fetched"
type_synonym upload_outcome = "(UploadedImage, errorData) response fetched"
type_synonym delete_outcome = "(unit, unit) response fetched"

text \<open>
  The effects of a handler: a request sent with \<open>fetch\<close> (method, URL, and the file of
  the multipart form if there is one), a toast, a line on the console.
\<close>

datatype effect =
    Fetch string string "File option"
  | ToastError string
  | ToastSuccess string
  | ConsoleError string

text \<open>
  The state of the component. \<open>fileInputRef\<close> is the value of the file input element
  the ref points to, \<open>None\<close> while \<open>fileInputRef.current\<close> is null.
\<close>

record state =
  images :: "UploadedImage list"
  isUploading :: bool
  selectedFile :: "File option"
  fileInputRef :: "string option"

definition initial :: state where
  "initial = \<lparr>images = [], isUploading = False, selectedFile = None, fileInputRef = None\<rparr>"

subsection \<open>Helpers of the language\<close>

text \<open>\<open>s.startsWith(p)\<close>.\<close>

definition startsWith :: "string \<Rightarrow> string \<Rightarrow> bool" where
  "startsWith s p = (take (length p) s = p)"

text \<open>\<open>errorData.message\<close>: the read throws on \<open>null\<close>.\<close>

fun read_message :: "errorData \<Rightarrow> thrown + json_value option" where
  "read_message (NullBody t) = Inl (Error t)"
| "read_message (Body m) = Inr m"

text \<open>Whether a value counts as true in a condition.\<close>

fun truthy :: "json_value \<Rightarrow> bool" where
  "truthy JNull = False"
| "truthy (JBool b) = b"
| "truthy (JNumber zero _) = (\<not> zero)"
| "truthy (JString s) = (s \<noteq> [])"
| "truthy (JCompound _) = True"

text \<open>\<open>m || d\<close>: the left operand unless it is undefined or falsy.\<close>

definition or_default :: "json_value option \<Rightarrow> json_value \<Rightarrow> json_value" where
  "or_default m d = (case m of None \<Rightarrow> d | Some v \<Rightarrow> if truthy v then v else d)"

text \<open>The conversion of a value to a string, which can throw for an array or object.\<close>

fun to_string :: "json_value \<Rightarrow> thrown + string" where
  "to_string JNull = Inr ''null''"
| "to_string (JBool b) = Inr (if b then ''true'' else ''false'')"
| "to_string (JNumber _ t) = Inr t"
| "to_string (JString s) = Inr s"
| "to_string (JCompound (Inr t)) = Inr t"
| "to_string (JCompound (Inl t)) = Inl (Error t)"

text \<open>
  What \<open>throw new Error(v)\<close> throws: the new error, whose message is \<open>v\<close> converted to
  a string, or what that conversion throws.
\<close>

definition throw_new_Error :: "json_value \<Rightarrow> thrown" where
  "throw_new_Error v = (case to_string v of Inl e \<Rightarrow> e | Inr t \<Rightarrow> Error t)"

text \<open>\<open>{...img, status: "completed"}\<close>\<close>

definition completed :: "UploadedImage \<Rightarrow> UploadedImage" where
  "completed img = img\<lparr>status := Some Completed\<rparr>"

subsection \<open>fetchImages\<close>

text \<open>
  The \<open>try\<close> block: \<open>Inl\<close> is a throw, \<open>Inr\<close> the state it leaves. A response that is
  not ok falls through the \<open>if\<close>, which has no \<open>else\<close>.
\<close>

definition fetchImages_try :: "state \<Rightarrow> list_outcome \<Rightarrow> thrown + state" where
  "fetchImages_try st outcome =
     (case outcome of
        Rejects e \<Rightarrow> Inl e
      | Resolves response \<Rightarrow>
          (case response of
             ResponseOk json \<Rightarrow>
               (case json of
                  Inl e \<Rightarrow> Inl e
                | Inr data \<Rightarrow> Inr (st\<lparr>images := map completed data\<rparr>))
           | ResponseNotOk _ \<Rightarrow> Inr st))"

definition fetchImages :: "state \<Rightarrow> list_outcome \<Rightarrow> state \<times> effect list" where
  "fetchImages st outcome =
     (let request = Fetch ''GET'' ''http://localhost:5050/api/images'' None in
      case fetchImages_try st outcome of
        Inr st' \<Rightarrow> (st', [request])
      | Inl e \<Rightarrow>
          (st, [request, ConsoleError ''Failed to fetch images:'',
                ToastError ''Failed to load images'']))"

subsection \<open>handleFileSelect\<close>

text \<open>The argument is \<open>event.target.files?.[0]\<close>.\<close>

definition handleFileSelect :: "state \<Rightarrow> File option \<Rightarrow> state \<times> effect list" where
  "handleFileSelect st selected =
     (case selected of
        None \<Rightarrow> (st, [])
      | Some f \<Rightarrow>
          if \<not> startsWith (file_type f) ''image/'' then
            (st, [ToastError ''Please select a valid image file (JPEG/PNG)''])
          else if file_size f > 5 * 1024 * 1024 then
            (st, [ToastError ''File size must be less than 5MB''])
          else
            (st\<lparr>selectedFile := Some f\<rparr>,
             [ToastSuccess ''Image selected! Click upload to analyze.'']))"

subsection \<open>handleUpload\<close>

text \<open>
  The \<open>try\<close> block, entered with \<open>isUploading\<close> already set. On a response that is not
  ok the block throws: \<open>throw new Error(errorData.message || "Upload failed")\<close>.
\<close>

definition handleUpload_try :: "state \<Rightarrow> upload_outcome \<Rightarrow> thrown + state \<times> effect list" where
  "handleUpload_try st outcome =
     (case outcome of
        Rejects e \<Rightarrow> Inl e
      | Resolves response \<Rightarrow>
          (case response of
             ResponseOk json \<Rightarrow>
               (case json of
                  Inl e \<Rightarrow> Inl e
                | Inr result \<Rightarrow>
                    Inr (st\<lparr>images := completed result # images st,
                            selectedFile := None,
                            fileInputRef := map_option (\<lambda>_. []) (fileInputRef st)\<rparr>,
                         [ToastSuccess ''Image uploaded and analyzed successfully!'']))
           | ResponseNotOk json \<Rightarrow>
               (case json of
                  Inl e \<Rightarrow> Inl e
                | Inr errorData \<Rightarrow>
                    (case read_message errorData of
                       Inl e \<Rightarrow> Inl e
                     | Inr m \<Rightarrow>
                         Inl (throw_new_Error
                                (or_default m (JString ''Upload failed'')))))))"

text \<open>The \<open>catch\<close> block: the text of the toast for a caught value.\<close>

definition upload_error_text :: "thrown \<Rightarrow> string" where
  "upload_error_text e =
     ''Upload failed: '' @ (case e of Error m \<Rightarrow> m | NonError \<Rightarrow> ''Unknown error'')"

definition handleUpload :: "state \<Rightarrow> upload_outcome \<Rightarrow> state \<times> effect list" where
  "handleUpload st outcome =
     (case selectedFile st of
        None \<Rightarrow> (st, [ToastError ''Please select an image first''])
      | Some f \<Rightarrow>
          (let st1 = st\<lparr>isUploading := True\<rparr>;
               request = Fetch ''POST'' ''http://localhost:5050/api/upload'' (Some f) in
           case handleUpload_try st1 outcome of
             Inr (st2, effects) \<Rightarrow> (st2\<lparr>isUploading := False\<rparr>, request # effects)
           | Inl e \<Rightarrow>
               (st1\<lparr>isUploading := False\<rparr>,
                [request, ConsoleError ''Upload error:'',
                 ToastError (upload_error_text e)])))"

text \<open>The outcomes on which the \<open>try\<close> block of \<open>handleUpload\<close> runs to its end.\<close>

fun upload_succeeds :: "upload_outcome \<Rightarrow> bool" where
  "upload_succeeds (Resolves (ResponseOk (Inr _))) = True"
| "upload_succeeds _ = False"

subsection \<open>handleDelete\<close>

definition handleDelete :: "state \<Rightarrow> string \<Rightarrow> delete_outcome \<Rightarrow> state \<times> effect list" where
  "handleDelete st ident outcome =
     (let request = Fetch ''DELETE'' (''http://localhost:5050/api/image/'' @ ident) None in
      case outcome of
        Rejects e \<Rightarrow>
          (st, [request, ConsoleError ''Delete error:'',
                ToastError ''An error occurred while deleting the image''])
      | Resolves response \<Rightarrow>
          if ok response then
            (st\<lparr>images := filter (\<lambda>img. id_img img \<noteq> ident) (images st)\<rparr>,
             [request, ToastSuccess ''Image deleted successfully''])
          else
            (st, [request, ToastError ''Failed to delete image'']))"

subsection \<open>Sequences of operations\<close>

text \<open>
  One operation of the controller with the outcome of its request: \<open>listImages\<close>,
  \<open>selectFile\<close>, \<open>uploadStaged\<close> and \<open>deleteImage\<close> of the specification are the handlers
  \<open>fetchImages\<close>, \<open>handleFileSelect\<close>, \<open>handleUpload\<close> and \<open>handleDelete\<close>.
\<close>

datatype event =
    ListImages list_outcome
  | SelectFile "File option"
  | UploadStaged upload_outcome
  | DeleteImage string delete_outcome

fun step :: "state \<Rightarrow> event \<Rightarrow> state \<times> effect list" where
  "step st (ListImages outcome) = fetchImages st outcome"
| "step st (SelectFile selected) = handleFileSelect st selected"
| "step st (UploadStaged outcome) = handleUpload st outcome"
| "step st (DeleteImage ident outcome) = handleDelete st ident outcome"

fun run :: "state \<Rightarrow> event list \<Rightarrow> state" where
  "run st [] = st"
| "run st (e # es) = run (fst (step st e)) es"

text \<open>The requests and the toasts among the effects of a handler.\<close>

fun is_request :: "effect \<Rightarrow> bool" where
  "is_request (Fetch _ _ _) = True"
| "is_request _ = False"

fun is_notice :: "effect \<Rightarrow> bool" where
  "is_notice (ToastError _) = True"
| "is_notice (ToastSuccess _) = True"
| "is_notice _ = False"

subsection \<open>A backend that hands out fresh identifiers\<close>

text \<open>
  The handlers never compare the identifier of a record they receive with the ones they
  hold. \<open>fresh_ids st e\<close> says that the response carried by the operation \<open>e\<close>, received
  in state \<open>st\<close>, brings no identifier twice: the array of a successful list response has
  distinct identifiers, and the record of a successful upload response (when a file is
  staged, so that the record is kept) has an identifier that no held record has.
\<close>

fun fresh_ids :: "state \<Rightarrow> event \<Rightarrow> bool" where
  "fresh_ids st (ListImages (Resolves (ResponseOk (Inr data)))) = distinct (map id_img data)"
| "fresh_ids st (UploadStaged (Resolves (ResponseOk (Inr result)))) =
     (selectedFile st = None \<or> id_img result \<notin> set (map id_img (images st)))"
| "fresh_ids st _ = True"

fun server_fresh :: "state \<Rightarrow> event list \<Rightarrow> bool" where
  "server_fresh st [] = True"
| "server_fresh st (e # es) = (fresh_ids st e \<and> server_fresh (fst (step st e)) es)"

subsection \<open>Sample data\<close>

definition example_file :: File where
  "example_file = \<lparr>file_name = ''cat.png'', file_type = ''image/png'', file_size = 2048\<rparr>"

definition text_file :: File where
  "text_file = \<lparr>file_name = ''notes.txt'', file_type = ''text/plain'', file_size = 12\<rparr>"

definition big_file :: File where
  "big_file = \<lparr>file_name = ''big.png'', file_type = ''image/png'', file_size = 5242881\<rparr>"

definition limit_file :: File where
  "limit_file = \<lparr>file_name = ''limit.png'', file_type = ''image/png'', file_size = 5242880\<rparr>"

definition image_a :: UploadedImage where
  "image_a = \<lparr>id_img = ''a'', fileName = ''a.png'', originalName = Some ''cat.png'',
     mimeType = Some ''image/png'', size_img = Some 2048,
     uploadedAt = ''2024-01-01T00:00:00Z'', description = ''a cat'', status = None\<rparr>"

definition image_b :: UploadedImage where
  "image_b = \<lparr>id_img = ''b'', fileName = ''b.png'', originalName = None,
     mimeType = None, size_img = None,
     uploadedAt = ''2024-01-02T00:00:00Z'', description = ''a dog'',
     status = Some Analyzing\<rparr>"

definition image_c :: UploadedImage where
  "image_c = \<lparr>id_img = ''c'', fileName = ''c.png'', originalName = Some ''bird.png'',
     mimeType = Some ''image/png'', size_img = Some 4096,
     uploadedAt = ''2024-01-03T00:00:00Z'', description = ''a bird'', status = None\<rparr>"

text \<open>The gallery after \<open>image_a\<close> was uploaded and \<open>example_file\<close> was staged again.\<close>

definition gallery_a :: state where
  "gallery_a = \<lparr>images = [completed image_a], isUploading = False,
     selectedFile = Some example_file, fileInputRef = None\<rparr>"

section \<open>Properties\<close>

subsection \<open>What each handler does to the collection\<close>

lemma id_img_completed [simp]: "id_img (completed img) = id_img img"
  by (simp add: completed_def)

lemma status_completed [simp]: "status (completed img) = Some Completed"
  by (simp add: completed_def)

lemma images_fetchImages:
  "images (fst (fetchImages st outcome)) =
     (case outcome of
        Resolves (ResponseOk (Inr data)) \<Rightarrow> map completed data
      | _ \<Rightarrow> images st)"
  by (simp add: fetchImages_def fetchImages_try_def
      split: fetched.splits response.splits sum.splits)

lemma images_handleFileSelect: "images (fst (handleFileSelect st selected)) = images st"
  by (simp add: handleFileSelect_def split: option.splits)

lemma images_handleUpload:
  "images (fst (handleUpload st outcome)) =
     (case (selectedFile st, outcome) of
        (Some f, Resolves (ResponseOk (Inr result))) \<Rightarrow> completed result # images st
      | _ \<Rightarrow> images st)"
  by (simp add: handleUpload_def handleUpload_try_def
      split: option.splits fetched.splits response.splits sum.splits)

lemma images_handleDelete:
  "images (fst (handleDelete st ident outcome)) =
     (case outcome of
        Resolves (ResponseOk body) \<Rightarrow> filter (\<lambda>img. id_img img \<noteq> ident) (images st)
      | _ \<Rightarrow> images st)"
  by (simp add: handleDelete_def split: fetched.splits response.splits)

lemma run_snoc: "run st (es @ [e]) = fst (step (run st es) e)"
  by (induction es arbitrary: st) simp_all

lemma gallery_a_reachable:
  "gallery_a = run initial
     [SelectFile (Some example_file), UploadStaged (Resolves (ResponseOk (Inr image_a))),
      SelectFile (Some example_file)]"
  by (simp add: gallery_a_def initial_def example_file_def handleFileSelect_def
      startsWith_def handleUpload_def handleUpload_try_def)

subsection \<open>Invariants of one operation and of a sequence\<close>

lemma step_all_completed:
  assumes "\<forall>img \<in> set (images st). status img = Some Completed"
  shows "\<forall>img \<in> set (images (fst (step st e))). status img = Some Completed"
proof (cases e)
  case (ListImages outcome)
  then show ?thesis using assms
    by (auto simp: images_fetchImages split: fetched.splits response.splits sum.splits)
next
  case (SelectFile selected)
  then show ?thesis using assms by (simp add: images_handleFileSelect)
next
  case (UploadStaged outcome)
  then show ?thesis using assms
    by (auto simp: images_handleUpload
        split: option.splits fetched.splits response.splits sum.splits)
next
  case (DeleteImage ident outcome)
  then show ?thesis using assms
    by (auto simp: images_handleDelete split: fetched.splits response.splits)
qed

lemma run_all_completed:
  "\<forall>img \<in> set (images st). status img = Some Completed \<Longrightarrow>
   \<forall>img \<in> set (images (run st es)). status img = Some Completed"
proof (induction es arbitrary: st)
  case Nil
  then show ?case by simp
next
  case (Cons e es)
  from Cons.prems have "\<forall>img \<in> set (images (fst (step st e))). status img = Some Completed"
    by (rule step_all_completed)
  then show ?case using Cons.IH by simp
qed

lemma step_distinct_ids:
  assumes "distinct (map id_img (images st))" and "fresh_ids st e"
  shows "distinct (map id_img (images (fst (step st e))))"
proof (cases e)
  case (ListImages outcome)
  then show ?thesis using assms
    by (auto simp: images_fetchImages comp_def
        split: fetched.splits response.splits sum.splits)
next
  case (SelectFile selected)
  then show ?thesis using assms by (simp add: images_handleFileSelect)
next
  case (UploadStaged outcome)
  then show ?thesis using assms
    by (auto simp: images_handleUpload
        split: option.splits fetched.splits response.splits sum.splits)
next
  case (DeleteImage ident outcome)
  then show ?thesis using assms
    by (auto simp: images_handleDelete distinct_map_filter
        split: fetched.splits response.splits)
qed

lemma run_distinct_ids:
  "distinct (map id_img (images st)) \<Longrightarrow> server_fresh st es \<Longrightarrow>
   distinct (map id_img (images (run st es)))"
proof (induction es arbitrary: st)
  case Nil
  then show ?case by simp
next
  case (Cons e es)
  from Cons.prems have "distinct (map id_img (images (fst (step st e))))"
    by (simp add: step_distinct_ids)
  moreover from Cons.prems have "server_fresh (fst (step st e)) es" by simp
  ultimately show ?case using Cons.IH by simp
qed

section \<open>The claims\<close>

subsection \<open>Selecting a file\<close>

text \<open>
  Claim C10. A selection event that carries no file (\<open>event.target.files?.[0]\<close> is
  undefined) makes \<open>handleFileSelect\<close> return at once: the state is the one before
  the call, so the staged candidate and the collection are unchanged, and no effect is
  performed, so no notice is shown and neither validation message can appear.
\<close>

theorem selectFile_absent_is_noop:
  "handleFileSelect st None = (st, [])
   \<and> filter is_notice (snd (handleFileSelect st None)) = []
   \<and> selectedFile (fst (handleFileSelect st None)) = selectedFile st
   \<and> images (fst (handleFileSelect st None)) = images st"
  by (simp add: handleFileSelect_def)

text \<open>
  Claim C8. A file whose media type does not start with \<open>image/\<close>, or whose size is
  strictly above \<open>5 * 1024 * 1024\<close> bytes, is rejected by \<open>handleFileSelect\<close>: the state
  (and with it the staged candidate) is unchanged and exactly one error toast is shown,
  the one about the type when the type is wrong, the one about the size otherwise.
  A file of exactly \<open>5 * 1024 * 1024\<close> bytes with an image type is accepted and staged.
\<close>

theorem selectFile_rejects_bad_file:
  "(\<not> startsWith (file_type f) ''image/'' \<or> 5 * 1024 * 1024 < file_size f \<longrightarrow>
      fst (handleFileSelect st (Some f)) = st
      \<and> snd (handleFileSelect st (Some f)) =
          [ToastError (if \<not> startsWith (file_type f) ''image/''
                       then ''Please select a valid image file (JPEG/PNG)''
                       else ''File size must be less than 5MB'')])
   \<and> (startsWith (file_type f) ''image/'' \<and> file_size f = 5 * 1024 * 1024 \<longrightarrow>
      handleFileSelect st (Some f) =
        (st\<lparr>selectedFile := Some f\<rparr>,
         [ToastSuccess ''Image selected! Click upload to analyze.'']))"
  by (simp add: handleFileSelect_def)

theorem selectFile_rejects_bad_file_witness:
  "\<not> startsWith (file_type text_file) ''image/''
   \<and> handleFileSelect gallery_a (Some text_file) =
       (gallery_a, [ToastError ''Please select a valid image file (JPEG/PNG)''])
   \<and> 5 * 1024 * 1024 < file_size big_file
   \<and> handleFileSelect gallery_a (Some big_file) =
       (gallery_a, [ToastError ''File size must be less than 5MB''])
   \<and> startsWith (file_type limit_file) ''image/''
   \<and> file_size limit_file = 5 * 1024 * 1024
   \<and> selectedFile (fst (handleFileSelect gallery_a (Some limit_file))) = Some limit_file"
proof -
  have t: "\<not> startsWith (file_type text_file) ''image/''"
    by (simp add: startsWith_def text_file_def)
  have b: "5 * 1024 * 1024 < file_size big_file"
    by (simp add: big_file_def)
  have b': "startsWith (file_type big_file) ''image/''"
    by (simp add: startsWith_def big_file_def)
  have l: "startsWith (file_type limit_file) ''image/''"
          "file_size limit_file = 5 * 1024 * 1024"
    by (simp_all add: startsWith_def limit_file_def)
  from t selectFile_rejects_bad_file [of text_file gallery_a]
  have 1: "handleFileSelect gallery_a (Some text_file) =
       (gallery_a, [ToastError ''Please select a valid image file (JPEG/PNG)''])"
    by (simp add: prod_eq_iff)
  from b b' selectFile_rejects_bad_file [of big_file gallery_a]
  have 2: "handleFileSelect gallery_a (Some big_file) =
       (gallery_a, [ToastError ''File size must be less than 5MB''])"
    by (simp add: prod_eq_iff)
  from l selectFile_rejects_bad_file [of limit_file gallery_a]
  have 3: "selectedFile (fst (handleFileSelect gallery_a (Some limit_file))) = Some limit_file"
    by simp
  from t b l 1 2 3 show ?thesis by simp
qed

subsection \<open>Uploading the staged file\<close>

text \<open>
  Claim C9. When no file is staged, \<open>handleUpload\<close> performs no request whatever the
  backend would have answered, shows the error toast "Please select an image first",
  and returns the state it was given: the collection and the (empty) staged candidate
  do not change.
\<close>

theorem uploadStaged_without_file:
  assumes "selectedFile st = None"
  shows "handleUpload st outcome = (st, [ToastError ''Please select an image first''])
     \<and> filter is_request (snd (handleUpload st outcome)) = []
     \<and> images (fst (handleUpload st outcome)) = images st
     \<and> selectedFile (fst (handleUpload st outcome)) = None"
  using assms by (simp add: handleUpload_def)

theorem uploadStaged_without_file_witness:
  "selectedFile initial = None
   \<and> handleUpload initial (Resolves (ResponseOk (Inr image_a))) =
       (initial, [ToastError ''Please select an image first''])
   \<and> filter is_request (snd (handleUpload initial (Resolves (ResponseOk (Inr image_a))))) = []"
proof -
  have h: "selectedFile initial = None" by (simp add: initial_def)
  from h uploadStaged_without_file [OF h, of "Resolves (ResponseOk (Inr image_a))"]
  show ?thesis by simp
qed

subsection \<open>Deleting a record\<close>

text \<open>
  Claim C5. After a delete request that the backend answers with an ok response, the
  collection is the old one without the records whose \<open>id\<close> equals the given one: a
  record is kept if and only if its \<open>id\<close> differs, every kept record is unchanged and
  occurs as often as before, and the kept records stand in their former relative order.
  The rest of the state is untouched.
\<close>

theorem deleteImage_success:
  "images (fst (handleDelete st ident (Resolves (ResponseOk body)))) =
     filter (\<lambda>img. id_img img \<noteq> ident) (images st)
   \<and> set (images (fst (handleDelete st ident (Resolves (ResponseOk body))))) =
       {img \<in> set (images st). id_img img \<noteq> ident}
   \<and> subseq (images (fst (handleDelete st ident (Resolves (ResponseOk body))))) (images st)
   \<and> count_list (images (fst (handleDelete st ident (Resolves (ResponseOk body))))) img =
       (if id_img img = ident then 0 else count_list (images st) img)
   \<and> fst (handleDelete st ident (Resolves (ResponseOk body))) =
       st\<lparr>images := images (fst (handleDelete st ident (Resolves (ResponseOk body))))\<rparr>"
proof -
  have c: "count_list (filter (\<lambda>i. id_img i \<noteq> ident) xs) img =
      (if id_img img = ident then 0 else count_list xs img)" for xs
    by (induction xs) auto
  show ?thesis
    by (simp add: handleDelete_def c)
qed

text \<open>
  Claim C6. A delete request that fails, because \<open>fetch\<close> rejects or because the
  response is not ok, leaves the whole state, and so the collection, exactly as it
  was, and shows one error toast.
\<close>

theorem deleteImage_failure:
  "handleDelete st ident (Rejects e) =
     (st, [Fetch ''DELETE'' (''http://localhost:5050/api/image/'' @ ident) None,
           ConsoleError ''Delete error:'',
           ToastError ''An error occurred while deleting the image''])
   \<and> handleDelete st ident (Resolves (ResponseNotOk body)) =
     (st, [Fetch ''DELETE'' (''http://localhost:5050/api/image/'' @ ident) None,
           ToastError ''Failed to delete image''])"
  by (simp add: handleDelete_def)

subsection \<open>Loading the list\<close>

text \<open>
  Claim C2 asks for a failure notice after every list request that fails, also after a
  response that is not ok. The handler shows one when \<open>fetch\<close> (or the decoding of the
  body) throws; for a response that is not ok the \<open>if (response.ok)\<close> has no \<open>else\<close>,
  so the call ends with the state unchanged and with no toast at all. Here the list
  request made from \<open>gallery_a\<close> is answered with a response that is not ok: the only
  effect is the request itself.
\<close>

theorem listImages_not_ok_shows_no_notice:
  "fetchImages gallery_a (Resolves (ResponseNotOk (Inr ()))) =
     (gallery_a, [Fetch ''GET'' ''http://localhost:5050/api/images'' None])
   \<and> filter is_notice (snd (fetchImages gallery_a (Resolves (ResponseNotOk (Inr ()))))) = []"
  by (simp add: fetchImages_def fetchImages_try_def)

subsection \<open>The status tag\<close>

text \<open>
  Claim C7. Starting from an empty collection, after any sequence of operations with
  any outcomes every record of the collection has the status "completed", and none has
  the status "analyzing": \<open>fetchImages\<close> tags every record of the array it receives,
  \<open>handleUpload\<close> tags the record it receives, and the other paths add no record.
\<close>

theorem status_always_completed:
  assumes "images st = []"
  shows "\<forall>img \<in> set (images (run st es)).
           status img = Some Completed \<and> status img \<noteq> Some Analyzing"
proof -
  from assms have "\<forall>img \<in> set (images st). status img = Some Completed" by simp
  then have "\<forall>img \<in> set (images (run st es)). status img = Some Completed"
    by (rule run_all_completed)
  then show ?thesis by simp
qed

theorem status_always_completed_witness:
  "images initial = []
   \<and> list_all (\<lambda>img. status img = Some Completed \<and> status img \<noteq> Some Analyzing)
       (images (run initial
          [ListImages (Resolves (ResponseOk (Inr [image_b]))),
           SelectFile (Some example_file),
           UploadStaged (Resolves (ResponseOk (Inr image_a)))]))
   \<and> length (images (run initial
          [ListImages (Resolves (ResponseOk (Inr [image_b]))),
           SelectFile (Some example_file),
           UploadStaged (Resolves (ResponseOk (Inr image_a)))])) = 2"
proof -
  let ?es = "[ListImages (Resolves (ResponseOk (Inr [image_b]))),
              SelectFile (Some example_file),
              UploadStaged (Resolves (ResponseOk (Inr image_a)))]"
  have h: "images initial = []" by (simp add: initial_def)
  have n: "length (images (run initial ?es)) = 2"
    by (simp add: initial_def example_file_def fetchImages_def fetchImages_try_def
        handleFileSelect_def startsWith_def handleUpload_def handleUpload_try_def)
  have a: "list_all (\<lambda>img. status img = Some Completed \<and> status img \<noteq> Some Analyzing)
       (images (run initial ?es))"
    unfolding list_all_iff by (rule status_always_completed [OF h])
  from h a n show ?thesis by (intro conjI)
qed

subsection \<open>Distinct identifiers and the order of the collection\<close>

text \<open>
  Claim C1 says that the identifiers of every reachable collection are pairwise
  distinct and that the newest upload is its first element. The handlers keep whatever
  the backend sends. When the backend answers two uploads with records of the same
  identifier, both are kept; and when, after the upload of \<open>image_b\<close>, the backend
  answers a list request with the array \<open>[image_a, image_b]\<close>, the collection becomes
  that array, with the newest upload last.
\<close>

theorem distinct_ids_counterexample:
  "\<not> distinct (map id_img (images (run initial
      [SelectFile (Some example_file), UploadStaged (Resolves (ResponseOk (Inr image_a))),
       SelectFile (Some example_file), UploadStaged (Resolves (ResponseOk (Inr image_a)))])))
   \<and> images (run initial
      [SelectFile (Some example_file), UploadStaged (Resolves (ResponseOk (Inr image_b))),
       ListImages (Resolves (ResponseOk (Inr [image_a, image_b])))]) =
     [completed image_a, completed image_b]"
  by (simp add: initial_def example_file_def handleFileSelect_def startsWith_def
      handleUpload_def handleUpload_try_def fetchImages_def fetchImages_try_def)

text \<open>
  Claim C1, amended. Let the identifiers of the collection be pairwise distinct (as
  they are in the empty collection) and let every response of the backend bring fresh
  identifiers (\<open>server_fresh\<close>). Then after any sequence of operations the identifiers
  are pairwise distinct, and every further operation \<open>e\<close> of any kind and with any
  outcome whose response brings fresh identifiers leaves them pairwise distinct. Every
  operation keeps the order: a successful list request replaces the collection by the
  received array, tagged, in the order the backend sent it; a successful upload with a
  staged file puts its record first and leaves the former records behind it in their
  order; a successful delete keeps the remaining records in their order; every other
  operation (selecting a file, accepted or not, an upload with nothing staged, and
  every failed request) leaves the collection as it is.
\<close>

theorem distinct_ids_if_server_fresh:
  assumes "distinct (map id_img (images st))" and "server_fresh st es"
  shows "distinct (map id_img (images (run st es)))
     \<and> (fresh_ids (run st es) e \<longrightarrow>
          distinct (map id_img (images (fst (step (run st es) e)))))
     \<and> images (fst (step (run st es) e)) =
         (case e of
            ListImages (Resolves (ResponseOk (Inr data))) \<Rightarrow> map completed data
          | UploadStaged (Resolves (ResponseOk (Inr result))) \<Rightarrow>
              (if selectedFile (run st es) = None then images (run st es)
               else completed result # images (run st es))
          | DeleteImage ident (Resolves (ResponseOk body)) \<Rightarrow>
              filter (\<lambda>img. id_img img \<noteq> ident) (images (run st es))
          | _ \<Rightarrow> images (run st es))"
proof (intro conjI impI)
  from assms show d: "distinct (map id_img (images (run st es)))"
    by (rule run_distinct_ids)
  show "distinct (map id_img (images (fst (step (run st es) e))))"
    if "fresh_ids (run st es) e"
    using d that by (rule step_distinct_ids)
  show "images (fst (step (run st es) e)) =
         (case e of
            ListImages (Resolves (ResponseOk (Inr data))) \<Rightarrow> map completed data
          | UploadStaged (Resolves (ResponseOk (Inr result))) \<Rightarrow>
              (if selectedFile (run st es) = None then images (run st es)
               else completed result # images (run st es))
          | DeleteImage ident (Resolves (ResponseOk body)) \<Rightarrow>
              filter (\<lambda>img. id_img img \<noteq> ident) (images (run st es))
          | _ \<Rightarrow> images (run st es))"
  proof (cases e)
    case (ListImages outcome)
    then show ?thesis
      by (simp add: images_fetchImages split: fetched.splits response.splits sum.splits)
  next
    case (SelectFile selected)
    then show ?thesis by (simp add: images_handleFileSelect)
  next
    case (UploadStaged outcome)
    then show ?thesis
      by (simp add: images_handleUpload
          split: option.splits fetched.splits response.splits sum.splits)
  next
    case (DeleteImage ident outcome)
    then show ?thesis
      by (simp add: images_handleDelete split: fetched.splits response.splits)
  qed
qed

theorem distinct_ids_if_server_fresh_witness:
  "distinct (map id_img (images initial))
   \<and> server_fresh initial
       [SelectFile (Some example_file), UploadStaged (Resolves (ResponseOk (Inr image_a))),
        SelectFile (Some example_file), UploadStaged (Resolves (ResponseOk (Inr image_b))),
        SelectFile (Some example_file)]
   \<and> map id_img (images (run initial
       [SelectFile (Some example_file), UploadStaged (Resolves (ResponseOk (Inr image_a))),
        SelectFile (Some example_file), UploadStaged (Resolves (ResponseOk (Inr image_b))),
        SelectFile (Some example_file)])) = [''b'', ''a'']
   \<and> distinct (map id_img (images (run initial
       [SelectFile (Some example_file), UploadStaged (Resolves (ResponseOk (Inr image_a))),
        SelectFile (Some example_file), UploadStaged (Resolves (ResponseOk (Inr image_b))),
        SelectFile (Some example_file)])))
   \<and> fresh_ids (run initial
       [SelectFile (Some example_file), UploadStaged (Resolves (ResponseOk (Inr image_a))),
        SelectFile (Some example_file), UploadStaged (Resolves (ResponseOk (Inr image_b))),
        SelectFile (Some example_file)])
       (UploadStaged (Resolves (ResponseOk (Inr image_c))))
   \<and> distinct (map id_img (images (fst (step (run initial
       [SelectFile (Some example_file), UploadStaged (Resolves (ResponseOk (Inr image_a))),
        SelectFile (Some example_file), UploadStaged (Resolves (ResponseOk (Inr image_b))),
        SelectFile (Some example_file)])
       (UploadStaged (Resolves (ResponseOk (Inr image_c))))))))
   \<and> images (fst (step (run initial
       [SelectFile (Some example_file), UploadStaged (Resolves (ResponseOk (Inr image_a))),
        SelectFile (Some example_file), UploadStaged (Resolves (ResponseOk (Inr image_b))),
        SelectFile (Some example_file)])
       (UploadStaged (Resolves (ResponseOk (Inr image_c)))))) =
     [completed image_c, completed image_b, completed image_a]"
proof -
  let ?es = "[SelectFile (Some example_file),
              UploadStaged (Resolves (ResponseOk (Inr image_a))),
              SelectFile (Some example_file),
              UploadStaged (Resolves (ResponseOk (Inr image_b))),
              SelectFile (Some example_file)]"
  let ?e = "UploadStaged (Resolves (ResponseOk (Inr image_c)))"
  have d: "distinct (map id_img (images initial))" by (simp add: initial_def)
  have f: "server_fresh initial ?es"
    by (simp add: initial_def example_file_def image_a_def image_b_def
        handleFileSelect_def startsWith_def handleUpload_def handleUpload_try_def)
  have r: "run initial ?es =
      \<lparr>images = [completed image_b, completed image_a], isUploading = False,
       selectedFile = Some example_file, fileInputRef = None\<rparr>"
    by (simp add: initial_def example_file_def handleFileSelect_def startsWith_def
        handleUpload_def handleUpload_try_def)
  have i: "map id_img (images (run initial ?es)) = [''b'', ''a'']"
    unfolding r by (simp add: image_a_def image_b_def)
  have n: "fresh_ids (run initial ?es) ?e"
    unfolding r by (simp add: image_a_def image_b_def image_c_def)
  note t = distinct_ids_if_server_fresh [OF d f, of ?e]
  from t have 1: "distinct (map id_img (images (run initial ?es)))"
    by (rule conjunct1)
  from t n have 2: "distinct (map id_img (images (fst (step (run initial ?es) ?e))))"
    by blast
  from t have "images (fst (step (run initial ?es) ?e)) =
      (if selectedFile (run initial ?es) = None then images (run initial ?es)
       else completed image_c # images (run initial ?es))"
    by (simp only: event.case fetched.case response.case sum.case)
  then have 3: "images (fst (step (run initial ?es) ?e)) =
      [completed image_c, completed image_b, completed image_a]"
    unfolding r by simp
  from d f i 1 n 2 3 show ?thesis by (intro conjI)
qed

subsection \<open>The outcome of an upload\<close>

text \<open>
  Claim C3 says that after every successful upload the returned record occurs exactly
  once in the collection. The handler prepends the record without looking at the
  collection: when the backend answers with a record that the collection already
  holds (here \<open>image_a\<close>, uploaded once before), the record occurs twice.
\<close>

theorem upload_exactly_once_counterexample:
  "count_list
     (images (fst (handleUpload gallery_a (Resolves (ResponseOk (Inr image_a))))))
     (completed image_a) = 2"
  by (simp add: gallery_a_def handleUpload_def handleUpload_try_def)

text \<open>
  Claim C3, amended. After a successful upload (a file is staged, the response is ok
  and its body decodes to a record) the collection is the returned record, tagged
  "completed" and otherwise as received, followed by the former records unchanged
  and in their former order, and the staged candidate is cleared. The new record occurs
  exactly once in the collection if and only if the collection did not hold an equal
  record before; that is so whenever no held record has its identifier.
\<close>

theorem uploadStaged_success:
  assumes "selectedFile st = Some f"
  shows "images (fst (handleUpload st (Resolves (ResponseOk (Inr result))))) =
       result\<lparr>status := Some Completed\<rparr> # images st
     \<and> selectedFile (fst (handleUpload st (Resolves (ResponseOk (Inr result))))) = None
     \<and> (count_list (images (fst (handleUpload st (Resolves (ResponseOk (Inr result))))))
          (result\<lparr>status := Some Completed\<rparr>) = 1
        \<longleftrightarrow> result\<lparr>status := Some Completed\<rparr> \<notin> set (images st))
     \<and> (id_img result \<notin> set (map id_img (images st)) \<longrightarrow>
          count_list (images (fst (handleUpload st (Resolves (ResponseOk (Inr result))))))
            (result\<lparr>status := Some Completed\<rparr>) = 1)"
proof -
  let ?st' = "fst (handleUpload st (Resolves (ResponseOk (Inr result))))"
  let ?new = "result\<lparr>status := Some Completed\<rparr>"
  from assms have i: "images ?st' = ?new # images st"
    by (simp add: images_handleUpload completed_def)
  from assms have s: "selectedFile ?st' = None"
    by (simp add: handleUpload_def handleUpload_try_def)
  have c: "count_list (images ?st') ?new = 1 \<longleftrightarrow> ?new \<notin> set (images st)"
    by (simp add: i count_list_0_iff)
  have "?new \<notin> set (images st)" if "id_img result \<notin> set (map id_img (images st))"
  proof
    assume "?new \<in> set (images st)"
    then have "id_img ?new \<in> set (map id_img (images st))" by (simp only: set_map image_eqI)
    with that show False by simp
  qed
  with c have "id_img result \<notin> set (map id_img (images st)) \<longrightarrow>
      count_list (images ?st') ?new = 1"
    by blast
  with i s c show ?thesis by (intro conjI)
qed

theorem uploadStaged_success_witness:
  "selectedFile gallery_a = Some example_file
   \<and> id_img image_b \<notin> set (map id_img (images gallery_a))
   \<and> images (fst (handleUpload gallery_a (Resolves (ResponseOk (Inr image_b))))) =
       [image_b\<lparr>status := Some Completed\<rparr>, completed image_a]
   \<and> selectedFile (fst (handleUpload gallery_a (Resolves (ResponseOk (Inr image_b))))) = None
   \<and> count_list (images (fst (handleUpload gallery_a (Resolves (ResponseOk (Inr image_b))))))
       (image_b\<lparr>status := Some Completed\<rparr>) = 1"
proof -
  have h: "selectedFile gallery_a = Some example_file" by (simp add: gallery_a_def)
  have n: "id_img image_b \<notin> set (map id_img (images gallery_a))"
    by (simp add: gallery_a_def image_a_def image_b_def)
  note t = uploadStaged_success [OF h, of image_b]
  from t have 1: "images (fst (handleUpload gallery_a (Resolves (ResponseOk (Inr image_b))))) =
      image_b\<lparr>status := Some Completed\<rparr> # images gallery_a"
    by (rule conjunct1)
  then have 1: "images (fst (handleUpload gallery_a (Resolves (ResponseOk (Inr image_b))))) =
      [image_b\<lparr>status := Some Completed\<rparr>, completed image_a]"
    by (simp add: gallery_a_def)
  from t have 2:
    "selectedFile (fst (handleUpload gallery_a (Resolves (ResponseOk (Inr image_b))))) = None"
    by blast
  from t n have 3:
    "count_list (images (fst (handleUpload gallery_a (Resolves (ResponseOk (Inr image_b))))))
       (image_b\<lparr>status := Some Completed\<rparr>) = 1"
    by blast
  from h n 1 2 3 show ?thesis by (intro conjI)
qed

text \<open>
  Claim C4 says that the error shown after a failed upload is the \<open>message\<close> of the
  response body when the body has one, and a generic message otherwise. The handler
  takes \<open>errorData.message || "Upload failed"\<close>, so a message that is present but empty
  is replaced by the generic text; and when the body of the failed response is not
  JSON, \<open>response.json()\<close> throws and the toast carries the message of that error, not
  the generic text.
\<close>

theorem upload_failure_message_counterexample:
  "snd (handleUpload gallery_a
        (Resolves (ResponseNotOk (Inr (Body (Some (JString [])))))))  =
     [Fetch ''POST'' ''http://localhost:5050/api/upload'' (Some example_file),
      ConsoleError ''Upload error:'',
      ToastError ''Upload failed: Upload failed'']
   \<and> snd (handleUpload gallery_a
        (Resolves (ResponseNotOk (Inl (Error ''Unexpected token <''))))) =
     [Fetch ''POST'' ''http://localhost:5050/api/upload'' (Some example_file),
      ConsoleError ''Upload error:'',
      ToastError ''Upload failed: Unexpected token <'']"
  by (simp add: gallery_a_def handleUpload_def handleUpload_try_def or_default_def
      throw_new_Error_def upload_error_text_def)

text \<open>
  Claim C4, amended. When a file is staged and the upload fails in any way (\<open>fetch\<close>
  rejects, the response is not ok, or the body of an ok response does not decode), the
  collection is unchanged and the staged candidate remains set, and after the request
  one error toast "Upload failed: " followed by a text is shown. For a response that is
  not ok whose body decodes to a value other than \<open>null\<close>, the text is the \<open>message\<close>
  of the body when that is a non-empty string, the string conversion of the message when
  it is any other truthy value, and "Upload failed" when the message is absent or falsy
  (the empty string, \<open>null\<close>, \<open>false\<close>, zero). When something throws (\<open>fetch\<close>, the
  decoding of the body, the read of \<open>message\<close> from a body that is \<open>null\<close>, or the string
  conversion of the message), the text is the message of the thrown error, or
  "Unknown error" when the thrown value is not an \<open>Error\<close>.
\<close>

theorem uploadStaged_failure:
  assumes "selectedFile st = Some f"
  shows "(\<not> upload_succeeds outcome \<longrightarrow>
            images (fst (handleUpload st outcome)) = images st
          \<and> selectedFile (fst (handleUpload st outcome)) = Some f)
     \<and> (let failed = (\<lambda>outcome text.
             images (fst (handleUpload st outcome)) = images st
           \<and> selectedFile (fst (handleUpload st outcome)) = Some f
           \<and> snd (handleUpload st outcome) =
               [Fetch ''POST'' ''http://localhost:5050/api/upload'' (Some f),
                ConsoleError ''Upload error:'',
                ToastError (''Upload failed: '' @ text)]);
             not_ok = (\<lambda>m. Resolves (ResponseNotOk (Inr (Body m))))
         in failed (not_ok (Some (JString (c # cs)))) (c # cs)
          \<and> failed (not_ok (Some (JBool True))) ''true''
          \<and> failed (not_ok (Some (JNumber False t))) t
          \<and> failed (not_ok (Some (JCompound (Inr t)))) t
          \<and> failed (not_ok (Some (JCompound (Inl t)))) t
          \<and> failed (not_ok None) ''Upload failed''
          \<and> failed (not_ok (Some (JString []))) ''Upload failed''
          \<and> failed (not_ok (Some JNull)) ''Upload failed''
          \<and> failed (not_ok (Some (JBool False))) ''Upload failed''
          \<and> failed (not_ok (Some (JNumber True t))) ''Upload failed''
          \<and> failed (Resolves (ResponseNotOk (Inr (NullBody t)))) t
          \<and> failed (Resolves (ResponseNotOk (Inl (Error m)))) m
          \<and> failed (Resolves (ResponseNotOk (Inl NonError))) ''Unknown error''
          \<and> failed (Resolves (ResponseOk (Inl (Error m)))) m
          \<and> failed (Resolves (ResponseOk (Inl NonError))) ''Unknown error''
          \<and> failed (Rejects (Error m)) m
          \<and> failed (Rejects NonError) ''Unknown error'')"
proof (intro conjI impI)
  assume "\<not> upload_succeeds outcome"
  then have "handleUpload_try (st\<lparr>isUploading := True\<rparr>) outcome \<noteq> Inr y" for y
    by (cases outcome rule: upload_succeeds.cases)
      (simp_all add: handleUpload_try_def split: sum.splits)
  then obtain e where "handleUpload_try (st\<lparr>isUploading := True\<rparr>) outcome = Inl e"
    by (cases "handleUpload_try (st\<lparr>isUploading := True\<rparr>) outcome") auto
  with assms show "images (fst (handleUpload st outcome)) = images st"
    and "selectedFile (fst (handleUpload st outcome)) = Some f"
    by (simp_all add: handleUpload_def)
next
  from assms show "let failed = (\<lambda>outcome text.
             images (fst (handleUpload st outcome)) = images st
           \<and> selectedFile (fst (handleUpload st outcome)) = Some f
           \<and> snd (handleUpload st outcome) =
               [Fetch ''POST'' ''http://localhost:5050/api/upload'' (Some f),
                ConsoleError ''Upload error:'',
                ToastError (''Upload failed: '' @ text)]);
             not_ok = (\<lambda>m. Resolves (ResponseNotOk (Inr (Body m))))
         in failed (not_ok (Some (JString (c # cs)))) (c # cs)
          \<and> failed (not_ok (Some (JBool True))) ''true''
          \<and> failed (not_ok (Some (JNumber False t))) t
          \<and> failed (not_ok (Some (JCompound (Inr t)))) t
          \<and> failed (not_ok (Some (JCompound (Inl t)))) t
          \<and> failed (not_ok None) ''Upload failed''
          \<and> failed (not_ok (Some (JString []))) ''Upload failed''
          \<and> failed (not_ok (Some JNull)) ''Upload failed''
          \<and> failed (not_ok (Some (JBool False))) ''Upload failed''
          \<and> failed (not_ok (Some (JNumber True t))) ''Upload failed''
          \<and> failed (Resolves (ResponseNotOk (Inr (NullBody t)))) t
          \<and> failed (Resolves (ResponseNotOk (Inl (Error m)))) m
          \<and> failed (Resolves (ResponseNotOk (Inl NonError))) ''Unknown error''
          \<and> failed (Resolves (ResponseOk (Inl (Error m)))) m
          \<and> failed (Resolves (ResponseOk (Inl NonError))) ''Unknown error''
          \<and> failed (Rejects (Error m)) m
          \<and> failed (Rejects NonError) ''Unknown error''"
    by (simp add: handleUpload_def handleUpload_try_def or_default_def throw_new_Error_def
        upload_error_text_def)
qed

theorem uploadStaged_failure_witness:
  "selectedFile gallery_a = Some example_file
   \<and> \<not> upload_succeeds (Resolves (ResponseNotOk (Inr (NullBody ''null has no message''))))
   \<and> images (fst (handleUpload gallery_a
        (Resolves (ResponseNotOk (Inr (NullBody ''null has no message'')))))) =
       images gallery_a
   \<and> selectedFile (fst (handleUpload gallery_a
        (Resolves (ResponseNotOk (Inr (NullBody ''null has no message'')))))) =
       Some example_file
   \<and> snd (handleUpload gallery_a
        (Resolves (ResponseNotOk (Inr (NullBody ''null has no message''))))) =
       [Fetch ''POST'' ''http://localhost:5050/api/upload'' (Some example_file),
        ConsoleError ''Upload error:'',
        ToastError ''Upload failed: null has no message'']
   \<and> snd (handleUpload gallery_a
        (Resolves (ResponseNotOk (Inr (Body (Some (JString ''disk full''))))))) =
       [Fetch ''POST'' ''http://localhost:5050/api/upload'' (Some example_file),
        ConsoleError ''Upload error:'',
        ToastError ''Upload failed: disk full'']
   \<and> snd (handleUpload gallery_a (Resolves (ResponseNotOk (Inr (Body None))))) =
       [Fetch ''POST'' ''http://localhost:5050/api/upload'' (Some example_file),
        ConsoleError ''Upload error:'',
        ToastError ''Upload failed: Upload failed'']"
proof -
  let ?null = "Resolves (ResponseNotOk (Inr (NullBody ''null has no message'')))
      :: upload_outcome"
  have h: "selectedFile gallery_a = Some example_file" by (simp add: gallery_a_def)
  have n: "\<not> upload_succeeds ?null" by simp
  note t = uploadStaged_failure
    [OF h, of ?null "CHR ''d''" "''isk full''" "''null has no message''"]
  from t n have 1: "images (fst (handleUpload gallery_a ?null)) = images gallery_a"
    and 2: "selectedFile (fst (handleUpload gallery_a ?null)) = Some example_file"
    by blast+
  from t have 3: "snd (handleUpload gallery_a ?null) =
       [Fetch ''POST'' ''http://localhost:5050/api/upload'' (Some example_file),
        ConsoleError ''Upload error:'',
        ToastError ''Upload failed: null has no message'']"
    and 4: "snd (handleUpload gallery_a
        (Resolves (ResponseNotOk (Inr (Body (Some (JString ''disk full''))))))) =
       [Fetch ''POST'' ''http://localhost:5050/api/upload'' (Some example_file),
        ConsoleError ''Upload error:'',
        ToastError ''Upload failed: disk full'']"
    and 5: "snd (handleUpload gallery_a (Resolves (ResponseNotOk (Inr (Body None))))) =
       [Fetch ''POST'' ''http://localhost:5050/api/upload'' (Some example_file),
        ConsoleError ''Upload error:'',
        ToastError ''Upload failed: Upload failed'']"
    by (simp_all add: Let_def)
  from h n 1 2 3 4 5 show ?thesis by (intro conjI)
qed

end
